theory Spec2Isabelle
  imports Complex_Main
begin

section \<open>Python values: exceptions, dictionaries, discrete fields\<close>

text \<open>
  Every exception the modelled code can raise is a value of \<open>error\<close>; a function that may
  raise returns \<open>error + 'a\<close> with \<open>Inl\<close> for the exception. \<open>SolverError\<close> stands for any
  exception of the nonlinear solver other than \<open>ConvergenceError\<close>.
\<close>

datatype error =
  ValueError | KeyError | IndexError | TypeError | NotImplementedError
  | ConvergenceError | SolverError

text \<open>
  A Python \<open>dict\<close> keeps its keys in insertion order; assigning to a key that is already
  present replaces the value and keeps the position. Python floats are modelled as exact
  real numbers: rounding of \<open>time += increment\<close> is not part of the model.
\<close>

type_synonym ('k, 'v) dict = "('k \<times> 'v) list"

fun dict_set :: "('k, 'v) dict \<Rightarrow> 'k \<Rightarrow> 'v \<Rightarrow> ('k, 'v) dict" where
  "dict_set [] k w = [(k, w)]"
| "dict_set ((k', w') # d) k w =
     (if k' = k then (k', w) # d else (k', w') # dict_set d k w)"

definition dict_get :: "('k, 'v) dict \<Rightarrow> 'k \<Rightarrow> error + 'v" where
  "dict_get d k = (case map_of d k of None \<Rightarrow> Inl KeyError | Some w \<Rightarrow> Inr w)"

definition keys :: "('k, 'v) dict \<Rightarrow> 'k list" where
  "keys d = map fst d"

text \<open>
  A firedrake \<open>Function\<close> is its vector of degrees of freedom; \<open>deepcopy\<close> and \<open>assign\<close>
  copy that vector, so in the value model they are the identity.
\<close>

type_synonym field = "real list"

type_synonym trajectory = "(real, field) dict"

section \<open>Name-to-implementation converters\<close>

subsection \<open>\<open>get_algorithm_by_name\<close> (parabolic.py)\<close>

text \<open>The ten function objects of parabolic.py that the converter can return.\<close>

datatype pStokesAlgorithm =
  implicitEuler_mixedFEM
  | implicitEuler_mixedFEM_linearMulti
  | implicitEuler_mixedFEM_linearMulti_withSymGrad
  | implicitEuler_mixedFEM_linearMulti_withSymGrad_approxOfAverages
  | CrankNicolson_mixedFEM_strato_transportNoise
  | CrankNicolson_mixedFEM_strato_transportNoise_withTemamsym
  | impliciteEuler_mixedFEM_ito_transportNoise
  | impliciteEuler_mixedFEM_strato_transportNoise
  | impliciteEuler_mixedFEM_strato_transportNoise_withTemamsym
  | CrankNicolson_mixedFEM_strato_transportNoise_withAntisym

definition get_algorithm_by_name :: "string \<Rightarrow> error + pStokesAlgorithm" where
  "get_algorithm_by_name algorithm_name =
    (if algorithm_name = ''Implicit Euler mixed FEM''
       then Inr implicitEuler_mixedFEM
     else if algorithm_name = ''Implicit Euler mixed FEM linear multi Noise''
       then Inr implicitEuler_mixedFEM_linearMulti
     else if algorithm_name = ''Implicit Euler mixed FEM linear multi Noise with sym Grad''
       then Inr implicitEuler_mixedFEM_linearMulti_withSymGrad
     else if algorithm_name =
         ''Implicit Euler mixed FEM linear multi Noise with sym Grad and approx of Averages''
       then Inr implicitEuler_mixedFEM_linearMulti_withSymGrad_approxOfAverages
     else if algorithm_name = ''Crank Nicolson mixed FEM Stratonovich Transport Noise''
       then Inr CrankNicolson_mixedFEM_strato_transportNoise
     else if algorithm_name =
         ''Crank Nicolson mixed FEM Stratonovich Transport Noise with Temam Symmetrisation''
       then Inr CrankNicolson_mixedFEM_strato_transportNoise_withTemamsym
     else if algorithm_name = ''Implicit Euler mixed FEM Ito Transport Noise''
       then Inr impliciteEuler_mixedFEM_ito_transportNoise
     else if algorithm_name = ''Implicit Euler mixed FEM Stratonovich Transport Noise''
       then Inr impliciteEuler_mixedFEM_strato_transportNoise
     else if algorithm_name =
         ''Implicit Euler mixed FEM Stratonovich Transport Noise with Temam Symmetrisation''
       then Inr impliciteEuler_mixedFEM_strato_transportNoise_withTemamsym
     else if algorithm_name =
         ''Crank Nicolson mixed FEM Stratonovich Transport Noise with anti-symmetrisation''
       then Inr CrankNicolson_mixedFEM_strato_transportNoise_withAntisym
     else Inl NotImplementedError)"

text \<open>The names that have a \<open>case\<close> of their own in \<open>get_algorithm_by_name\<close>.\<close>

definition algorithm_names :: "string list" where
  "algorithm_names =
    [''Implicit Euler mixed FEM'',
     ''Implicit Euler mixed FEM linear multi Noise'',
     ''Implicit Euler mixed FEM linear multi Noise with sym Grad'',
     ''Implicit Euler mixed FEM linear multi Noise with sym Grad and approx of Averages'',
     ''Crank Nicolson mixed FEM Stratonovich Transport Noise'',
     ''Crank Nicolson mixed FEM Stratonovich Transport Noise with Temam Symmetrisation'',
     ''Implicit Euler mixed FEM Ito Transport Noise'',
     ''Implicit Euler mixed FEM Stratonovich Transport Noise'',
     ''Implicit Euler mixed FEM Stratonovich Transport Noise with Temam Symmetrisation'',
     ''Crank Nicolson mixed FEM Stratonovich Transport Noise with anti-symmetrisation'']"

subsection \<open>\<open>get_function\<close> (predefined_data.py)\<close>

text \<open>
  The analytic expressions of the private generators \<open>_hill_wave\<close>, \<open>_non_solenoidal\<close>, ...;
  each generator returns \<open>project(expr, velocity_space)\<close>. The projections
  \<open>Stokes_projection\<close>, \<open>HL_projection\<close> and \<open>HL_projection_withBC\<close> belong to the
  finite-element stack; the result of \<open>get_function\<close> records which construction was
  selected, not the projected degrees of freedom.
\<close>

datatype generator =
  Function_zero
  | hill_wave
  | non_solenoidal int int
  | solenoidal int int
  | polynomial
  | polynomial_non_bc
  | polynomial_non_div

datatype discrete_field =
  Unprojected generator
  | Stokes_projection generator
  | HL_projection generator
  | HL_projection_withBC generator

definition get_function :: "string \<Rightarrow> int \<Rightarrow> int \<Rightarrow> error + discrete_field" where
  "get_function name_requested_function index_x index_y =
    (if name_requested_function = ''zero'' then Inr (Unprojected Function_zero)
     else if name_requested_function = ''x: hill, y: wave'' then Inr (Unprojected hill_wave)
     else if name_requested_function = ''non-solenoidal''
       then Inr (Unprojected (non_solenoidal index_x index_y))
     else if name_requested_function = ''solenoidal''
       then Inr (Unprojected (solenoidal index_x index_y))
     else if name_requested_function = ''polynomial'' then Inr (Unprojected polynomial)
     else if name_requested_function = ''polynomial - no BC''
       then Inr (Unprojected polynomial_non_bc)
     else if name_requested_function = ''polynomial - no div''
       then Inr (Unprojected polynomial_non_div)
     else if name_requested_function = ''x: hill, y: wave - Stokes projected''
       then Inr (Stokes_projection hill_wave)
     else if name_requested_function = ''non-solenoidal - Stokes projected''
       then Inr (Stokes_projection (non_solenoidal index_x index_y))
     else if name_requested_function = ''solenoidal - Stokes projected''
       then Inr (Stokes_projection (solenoidal index_x index_y))
     else if name_requested_function = ''polynomial - Stokes projected''
       then Inr (Stokes_projection polynomial)
     else if name_requested_function = ''zero - Stokes projected''
       then Inr (Stokes_projection Function_zero)
     else if name_requested_function = ''x: hill, y: wave - HL projected''
       then Inr (HL_projection hill_wave)
     else if name_requested_function = ''non-solenoidal - HL projected''
       then Inr (HL_projection (non_solenoidal index_x index_y))
     else if name_requested_function = ''solenoidal - HL projected''
       then Inr (HL_projection (solenoidal index_x index_y))
     else if name_requested_function = ''polynomial - HL projected''
       then Inr (HL_projection polynomial)
     else if name_requested_function = ''zero - HL projected with BC''
       then Inr (HL_projection_withBC Function_zero)
     else Inl NotImplementedError)"

definition function_names :: "string list" where
  "function_names =
    [''zero'', ''x: hill, y: wave'', ''non-solenoidal'', ''solenoidal'', ''polynomial'',
     ''polynomial - no BC'', ''polynomial - no div'',
     ''x: hill, y: wave - Stokes projected'', ''non-solenoidal - Stokes projected'',
     ''solenoidal - Stokes projected'', ''polynomial - Stokes projected'',
     ''zero - Stokes projected'',
     ''x: hill, y: wave - HL projected'', ''non-solenoidal - HL projected'',
     ''solenoidal - HL projected'', ''polynomial - HL projected'',
     ''zero - HL projected with BC'']"

subsection \<open>\<open>get_mesh\<close> (mesh.py)\<close>

text \<open>
  The mesh constructors of the external stack: \<open>UnitSquareMesh(32,32,name=...)\<close> and
  \<open>Mesh(ngmesh, name=...)\<close> for a netgen mesh loaded from the given file.
\<close>

datatype mesh =
  UnitSquareMesh nat nat string
  | Mesh string string

definition get_mesh :: "string \<Rightarrow> string \<Rightarrow> error + mesh" where
  "get_mesh name_mesh space_resolution =
    (if name_mesh = ''unit square'' then Inr (UnitSquareMesh 32 32 name_mesh)
     else if name_mesh = ''unit_square_non_singular'' then
       (if space_resolution = ''low''
          then Inr (Mesh ''src/discretisation/mesh_files/unit_square_non_singular_0.vol'' name_mesh)
        else if space_resolution = ''intermediate''
          then Inr (Mesh ''src/discretisation/mesh_files/unit_square_non_singular_1.vol'' name_mesh)
        else if space_resolution = ''high''
          then Inr (Mesh ''src/discretisation/mesh_files/unit_square_non_singular_2.vol'' name_mesh)
        else Inl NotImplementedError)
     else if name_mesh = ''unit L-shape'' then Inl NotImplementedError
     else Inl NotImplementedError)"

text \<open>The mesh names that have a \<open>case\<close> of their own in \<open>get_mesh\<close>.\<close>

definition mesh_names :: "string list" where
  "mesh_names = [''unit square'', ''unit_square_non_singular'', ''unit L-shape'']"

definition space_resolutions :: "string list" where
  "space_resolutions = [''low'', ''intermediate'', ''high'']"

section \<open>The p-Stokes time-stepping algorithms (parabolic.py)\<close>

subsection \<open>Collaborators outside the sources\<close>

text \<open>
  Modelled from the spec: \<open>trajectory_to_incremets\<close> of src/discretisation/time.py is not
  among the sources. The spec describes a trajectory as a chronologically ordered time
  grid and every algorithm unpacks the result as \<open>initial_time, time_increments\<close>: the
  first node of the grid and the differences of consecutive nodes. Reading the first
  node of an empty grid raises \<open>IndexError\<close>.
\<close>

definition trajectory_to_incremets :: "real list \<Rightarrow> error + (real \<times> real list)" where
  "trajectory_to_incremets trajectory =
    (case trajectory of
       [] \<Rightarrow> Inl IndexError
     | t0 # later \<Rightarrow> Inr (t0, map2 (\<lambda>a b. b - a) trajectory later))"

text \<open>
  \<open>SpaceDiscretisation\<close> (src/discretisation/space.py, not among the sources) is used
  through its attributes only. A function space is represented by its number of degrees
  of freedom; \<open>pressure_basis_integrals\<close> holds the integral over the domain of every
  pressure basis function, which is what \<open>assemble(inner(p,1)*dx)\<close> needs; \<open>bcs_mixed\<close>
  and \<open>nullspace\<close> (the attribute \<open>null\<close>) are handed to the solver unchanged.
\<close>

record ('bc, 'ns) SpaceDiscretisation =
  velocity_space :: nat
  pressure_space :: nat
  pressure_basis_integrals :: "real list"
  bcs_mixed :: 'bc
  nullspace :: 'ns

text \<open>\<open>Function(space)\<close>: a new function, all degrees of freedom zero.\<close>

definition Function :: "nat \<Rightarrow> field" where
  "Function space = replicate space 0"

text \<open>\<open>Function(space).assign(c)\<close> for a constant \<open>c\<close>: every degree of freedom is \<open>c\<close>.\<close>

definition assign_Constant :: "nat \<Rightarrow> real \<Rightarrow> field" where
  "assign_Constant space c = replicate space c"

text \<open>\<open>assemble(inner(p,1)*dx)\<close>: the integral of the discrete pressure over the domain.\<close>

definition assemble_inner_p_1_dx :: "('bc, 'ns) SpaceDiscretisation \<Rightarrow> field \<Rightarrow> real" where
  "assemble_inner_p_1_dx space_disc pressure =
     sum_list (map2 (*) (pressure_basis_integrals space_disc) pressure)"

text \<open>
  The two solver configurations imported from src/algorithms/solver_configs.py (not
  among the sources), identified by their names; their contents are not interpreted.
\<close>

datatype solver_config = enable_monitoring | direct_solve_details

subsection \<open>Variational forms\<close>

text \<open>
  The symbols a form can mention: \<open>u, p = split(up)\<close>, the test functions \<open>v, q\<close>, the
  functions \<open>uold\<close>, \<open>uint\<close>, \<open>det_forcing\<close>, \<open>noise_coefficient\<close> and the constants
  \<open>tau\<close>, \<open>dW\<close>, \<open>Re\<close>. A form holds references to these objects, so a solve reads the
  values they have at the time of the call.
\<close>

datatype symbol =
  sym_u | sym_p | sym_v | sym_q
  | sym_uold | sym_uint | sym_det_forcing | sym_noise_coefficient
  | sym_tau | sym_dW | sym_Re

text \<open>
  UFL expressions as the source writes them. \<open>S_tensor\<close>, \<open>S_tensor_sym\<close> and \<open>epsilon\<close>
  (src/algorithms/nonlinearities.py) stay uninterpreted; Python floats that enter a form
  (\<open>p_value\<close>, \<open>kappa_value\<close>, \<open>noise_intensity\<close>, literals) are \<open>Lit\<close>.
\<close>

datatype ufl =
  Sym symbol
  | Lit real
  | Add ufl ufl
  | Sub ufl ufl
  | Mul ufl ufl
  | Quot ufl ufl
  | Neg ufl
  | Inner ufl ufl
  | Dot ufl ufl
  | Grad ufl
  | Divergence ufl
  | S_tensor ufl real real
  | S_tensor_sym ufl real real
  | Epsilon ufl
  | Times_dx ufl

text \<open>Every symbol of an expression, in the order of its occurrences.\<close>

fun symbols :: "ufl \<Rightarrow> symbol list" where
  "symbols (Sym y) = [y]"
| "symbols (Lit c) = []"
| "symbols (Add a b) = symbols a @ symbols b"
| "symbols (Sub a b) = symbols a @ symbols b"
| "symbols (Mul a b) = symbols a @ symbols b"
| "symbols (Quot a b) = symbols a @ symbols b"
| "symbols (Neg a) = symbols a"
| "symbols (Inner a b) = symbols a @ symbols b"
| "symbols (Dot a b) = symbols a @ symbols b"
| "symbols (Grad a) = symbols a"
| "symbols (Divergence a) = symbols a"
| "symbols (S_tensor a pv kv) = symbols a"
| "symbols (S_tensor_sym a pv kv) = symbols a"
| "symbols (Epsilon a) = symbols a"
| "symbols (Times_dx a) = symbols a"

text \<open>
  The variational form of each algorithm, transcribed term by term with Python's
  precedence (\<open>1.0/Re*inner(..)\<close> is \<open>(1.0/Re)*inner(..)\<close>, \<open>a - b + c\<close> is \<open>(a - b) + c\<close>).
  The three numeric arguments are \<open>p_value\<close>, \<open>kappa_value\<close> and \<open>noise_intensity\<close>.
\<close>

fun VariationalForm :: "pStokesAlgorithm \<Rightarrow> real \<Rightarrow> real \<Rightarrow> real \<Rightarrow> ufl" where
  "VariationalForm implicitEuler_mixedFEM p_value kappa_value noise_intensity =
    Times_dx
     (Sub (Sub (Add
        (Inner (Sub (Sym sym_u) (Sym sym_uold)) (Sym sym_v))
        (Mul (Sym sym_tau)
          (Add (Sub
            (Mul (Quot (Lit 1) (Sym sym_Re))
               (Inner (S_tensor (Grad (Sym sym_u)) p_value kappa_value) (Grad (Sym sym_v))))
            (Inner (Sym sym_p) (Divergence (Sym sym_v))))
            (Inner (Divergence (Sym sym_u)) (Sym sym_q)))))
        (Mul (Sym sym_tau) (Inner (Sym sym_det_forcing) (Sym sym_v))))
        (Mul (Sym sym_dW) (Inner (Sym sym_noise_coefficient) (Sym sym_v))))"
| "VariationalForm implicitEuler_mixedFEM_linearMulti p_value kappa_value noise_intensity =
    Times_dx
     (Sub (Sub (Add
        (Inner (Sub (Sym sym_u) (Sym sym_uold)) (Sym sym_v))
        (Mul (Sym sym_tau)
          (Add (Sub
            (Mul (Quot (Lit 1) (Sym sym_Re))
               (Inner (S_tensor (Grad (Sym sym_u)) p_value kappa_value) (Grad (Sym sym_v))))
            (Inner (Sym sym_p) (Divergence (Sym sym_v))))
            (Inner (Divergence (Sym sym_u)) (Sym sym_q)))))
        (Mul (Sym sym_tau) (Inner (Sym sym_det_forcing) (Sym sym_v))))
        (Mul (Mul (Lit noise_intensity) (Sym sym_dW)) (Inner (Sym sym_uold) (Sym sym_v))))"
| "VariationalForm implicitEuler_mixedFEM_linearMulti_withSymGrad
      p_value kappa_value noise_intensity =
    Times_dx
     (Sub (Sub (Add
        (Inner (Sub (Sym sym_u) (Sym sym_uold)) (Sym sym_v))
        (Mul (Sym sym_tau)
          (Add (Sub
            (Mul (Quot (Lit 1) (Sym sym_Re))
               (Inner (S_tensor_sym (Grad (Sym sym_u)) p_value kappa_value)
                  (Epsilon (Grad (Sym sym_v)))))
            (Inner (Sym sym_p) (Divergence (Sym sym_v))))
            (Inner (Divergence (Sym sym_u)) (Sym sym_q)))))
        (Mul (Sym sym_tau) (Inner (Sym sym_det_forcing) (Sym sym_v))))
        (Mul (Mul (Lit noise_intensity) (Sym sym_dW)) (Inner (Sym sym_uold) (Sym sym_v))))"
| "VariationalForm implicitEuler_mixedFEM_linearMulti_withSymGrad_approxOfAverages
      p_value kappa_value noise_intensity =
    Times_dx
     (Sub (Sub (Sub (Add (Add
        (Inner (Sub (Sym sym_u) (Sym sym_uint)) (Sym sym_v))
        (Mul (Quot (Mul (Sym sym_tau) (Lit 1)) (Sym sym_Re))
           (Inner (S_tensor_sym (Grad (Sym sym_u)) p_value kappa_value)
              (Epsilon (Grad (Sym sym_v))))))
        (Mul (Sym sym_tau)
           (Add (Neg (Inner (Sym sym_p) (Divergence (Sym sym_v))))
                (Inner (Divergence (Sym sym_u)) (Sym sym_q)))))
        (Mul (Sym sym_tau) (Inner (Sym sym_det_forcing) (Sym sym_v))))
        (Mul (Mul (Lit noise_intensity) (Sym sym_dW)) (Inner (Sym sym_uold) (Sym sym_v))))
        (Mul (Sym sym_dW) (Inner (Sym sym_noise_coefficient) (Sym sym_v))))"
| "VariationalForm CrankNicolson_mixedFEM_strato_transportNoise
      p_value kappa_value noise_intensity =
    Times_dx
     (Sub (Sub (Add
        (Inner (Sub (Sym sym_u) (Sym sym_uold)) (Sym sym_v))
        (Mul (Sym sym_tau)
          (Add (Sub
            (Mul (Quot (Lit 1) (Sym sym_Re))
               (Inner (S_tensor (Quot (Add (Grad (Sym sym_u)) (Grad (Sym sym_uold))) (Lit 2))
                          p_value kappa_value)
                  (Grad (Sym sym_v))))
            (Inner (Sym sym_p) (Divergence (Sym sym_v))))
            (Inner (Divergence (Sym sym_u)) (Sym sym_q)))))
        (Mul (Sym sym_tau) (Inner (Sym sym_det_forcing) (Sym sym_v))))
        (Mul (Quot (Sym sym_dW) (Lit 2))
           (Inner (Dot (Add (Grad (Sym sym_u)) (Grad (Sym sym_uold))) (Sym sym_noise_coefficient))
              (Sym sym_v))))"
| "VariationalForm CrankNicolson_mixedFEM_strato_transportNoise_withTemamsym
      p_value kappa_value noise_intensity =
    Times_dx
     (Sub (Sub (Sub (Add
        (Inner (Sub (Sym sym_u) (Sym sym_uold)) (Sym sym_v))
        (Mul (Sym sym_tau)
          (Add (Sub
            (Mul (Quot (Lit 1) (Sym sym_Re))
               (Inner (S_tensor (Quot (Add (Grad (Sym sym_u)) (Grad (Sym sym_uold))) (Lit 2))
                          p_value kappa_value)
                  (Grad (Sym sym_v))))
            (Inner (Sym sym_p) (Divergence (Sym sym_v))))
            (Inner (Divergence (Sym sym_u)) (Sym sym_q)))))
        (Mul (Sym sym_tau) (Inner (Sym sym_det_forcing) (Sym sym_v))))
        (Mul (Quot (Sym sym_dW) (Lit 2))
           (Inner (Dot (Add (Grad (Sym sym_u)) (Grad (Sym sym_uold))) (Sym sym_noise_coefficient))
              (Sym sym_v))))
        (Mul (Quot (Sym sym_dW) (Lit 4))
           (Inner (Mul (Divergence (Sym sym_noise_coefficient))
                     (Add (Sym sym_u) (Sym sym_uold)))
              (Sym sym_v))))"
| "VariationalForm impliciteEuler_mixedFEM_ito_transportNoise
      p_value kappa_value noise_intensity =
    Times_dx
     (Sub (Sub (Add
        (Inner (Sub (Sym sym_u) (Sym sym_uold)) (Sym sym_v))
        (Mul (Sym sym_tau)
          (Add (Sub
            (Mul (Quot (Lit 1) (Sym sym_Re))
               (Inner (S_tensor (Grad (Sym sym_u)) p_value kappa_value) (Grad (Sym sym_v))))
            (Inner (Sym sym_p) (Divergence (Sym sym_v))))
            (Inner (Divergence (Sym sym_u)) (Sym sym_q)))))
        (Mul (Sym sym_tau) (Inner (Sym sym_det_forcing) (Sym sym_v))))
        (Mul (Sym sym_dW)
           (Inner (Dot (Grad (Sym sym_uold)) (Sym sym_noise_coefficient)) (Sym sym_v))))"
| "VariationalForm impliciteEuler_mixedFEM_strato_transportNoise
      p_value kappa_value noise_intensity =
    Times_dx
     (Sub (Sub (Add
        (Inner (Sub (Sym sym_u) (Sym sym_uold)) (Sym sym_v))
        (Mul (Sym sym_tau)
          (Add (Sub
            (Mul (Quot (Lit 1) (Sym sym_Re))
               (Inner (S_tensor (Grad (Sym sym_u)) p_value kappa_value) (Grad (Sym sym_v))))
            (Inner (Sym sym_p) (Divergence (Sym sym_v))))
            (Inner (Divergence (Sym sym_u)) (Sym sym_q)))))
        (Mul (Sym sym_tau) (Inner (Sym sym_det_forcing) (Sym sym_v))))
        (Mul (Quot (Sym sym_dW) (Lit 2))
           (Inner (Dot (Add (Grad (Sym sym_u)) (Grad (Sym sym_uold))) (Sym sym_noise_coefficient))
              (Sym sym_v))))"
| "VariationalForm impliciteEuler_mixedFEM_strato_transportNoise_withTemamsym
      p_value kappa_value noise_intensity =
    Times_dx
     (Sub (Sub (Sub (Add
        (Inner (Sub (Sym sym_u) (Sym sym_uold)) (Sym sym_v))
        (Mul (Sym sym_tau)
          (Add (Sub
            (Mul (Quot (Lit 1) (Sym sym_Re))
               (Inner (S_tensor (Grad (Sym sym_u)) p_value kappa_value) (Grad (Sym sym_v))))
            (Inner (Sym sym_p) (Divergence (Sym sym_v))))
            (Inner (Divergence (Sym sym_u)) (Sym sym_q)))))
        (Mul (Sym sym_tau) (Inner (Sym sym_det_forcing) (Sym sym_v))))
        (Mul (Quot (Sym sym_dW) (Lit 2))
           (Inner (Dot (Add (Grad (Sym sym_u)) (Grad (Sym sym_uold))) (Sym sym_noise_coefficient))
              (Sym sym_v))))
        (Mul (Quot (Sym sym_dW) (Lit 4))
           (Inner (Mul (Divergence (Sym sym_noise_coefficient))
                     (Add (Sym sym_u) (Sym sym_uold)))
              (Sym sym_v))))"
| "VariationalForm CrankNicolson_mixedFEM_strato_transportNoise_withAntisym
      p_value kappa_value noise_intensity =
    Times_dx
     (Add (Sub (Sub (Add
        (Inner (Sub (Sym sym_u) (Sym sym_uold)) (Sym sym_v))
        (Mul (Sym sym_tau)
          (Add (Sub
            (Mul (Quot (Lit 1) (Sym sym_Re))
               (Inner (S_tensor (Quot (Add (Grad (Sym sym_u)) (Grad (Sym sym_uold))) (Lit 2))
                          p_value kappa_value)
                  (Grad (Sym sym_v))))
            (Inner (Sym sym_p) (Divergence (Sym sym_v))))
            (Inner (Divergence (Sym sym_u)) (Sym sym_q)))))
        (Mul (Sym sym_tau) (Inner (Sym sym_det_forcing) (Sym sym_v))))
        (Mul (Quot (Sym sym_dW) (Lit 4))
           (Inner (Dot (Add (Grad (Sym sym_u)) (Grad (Sym sym_uold))) (Sym sym_noise_coefficient))
              (Sym sym_v))))
        (Mul (Quot (Sym sym_dW) (Lit 4))
           (Inner (Dot (Grad (Sym sym_v)) (Sym sym_noise_coefficient))
              (Add (Sym sym_u) (Sym sym_uold)))))"

subsection \<open>The nonlinear solve\<close>

text \<open>
  What one call \<open>solve(VariationalForm == 0, up, bcs=.., nullspace=.., solver_parameters=..)\<close>
  hands to the solver: the form, the current values of the functions and constants the
  form refers to, the unknown \<open>up\<close> (velocity and pressure part; its current content is
  the initial guess), boundary conditions, null space and the solver parameters
  (\<open>None\<close> when the argument is omitted).
\<close>

datatype cval = Scalar real | Field field

record ('bc, 'ns) solver_call =
  call_form :: ufl
  call_coefficients :: "(symbol \<times> cval) list"
  call_up :: "field \<times> field"
  call_bcs :: 'bc
  call_nullspace :: 'ns
  call_solver_parameters :: "solver_config option"

text \<open>
  The solver works on \<open>up\<close> in place: it either converges or raises, and in both cases
  leaves new content in \<open>up\<close>. It is a parameter of the model.
\<close>

datatype solve_outcome = Converged | Raised error

type_synonym ('bc, 'ns) solve =
  "('bc, 'ns) solver_call \<Rightarrow> solve_outcome \<times> (field \<times> field)"

text \<open>
  The \<open>try: solve(..) except ConvergenceError: solve(.., solver_parameters=fallback)\<close>
  block. The result also lists the calls that were made, in order.
\<close>

definition solve_or_retry ::
  "('bc, 'ns) solve \<Rightarrow> solver_config \<Rightarrow> ('bc, 'ns) solver_call
     \<Rightarrow> solve_outcome \<times> (field \<times> field) \<times> ('bc, 'ns) solver_call list" where
  "solve_or_retry solve fallback call =
    (case solve call of
       (outcome, up1) \<Rightarrow>
         if outcome = Raised ConvergenceError then
           (let retry = call\<lparr>call_up := up1, call_solver_parameters := Some fallback\<rparr>
            in case solve retry of (outcome2, up2) \<Rightarrow> (outcome2, up2, [call, retry]))
         else (outcome, up1, [call]))"

text \<open>The solver parameters of the second solve, per algorithm.\<close>

definition fallback_parameters :: "pStokesAlgorithm \<Rightarrow> solver_config" where
  "fallback_parameters algorithm =
    (if algorithm = implicitEuler_mixedFEM_linearMulti_withSymGrad_approxOfAverages
     then direct_solve_details else enable_monitoring)"

subsection \<open>Arguments, local variables, one time step\<close>

text \<open>
  The parameters of an algorithm, bound. Only three of the ten functions declare
  \<open>noise_intensity\<close>; the forms of the other seven do not mention it, so its value is
  immaterial there.
\<close>

record ('bc, 'ns) arguments =
  space_disc :: "('bc, 'ns) SpaceDiscretisation"
  time_grid :: "real list"
  noise_steps :: "real list"
  noise_coefficient :: field
  initial_condition :: field
  p_value :: real
  kappa_value :: real
  time_to_det_forcing :: "trajectory option"
  Reynolds_number :: real
  noise_intensity :: real

definition has_noise_intensity :: "pStokesAlgorithm \<Rightarrow> bool" where
  "has_noise_intensity algorithm =
    (algorithm = implicitEuler_mixedFEM_linearMulti
     \<or> algorithm = implicitEuler_mixedFEM_linearMulti_withSymGrad
     \<or> algorithm = implicitEuler_mixedFEM_linearMulti_withSymGrad_approxOfAverages)"

text \<open>
  The local objects of an algorithm that change while it runs. \<open>velocity\<close> and \<open>pressure\<close>
  are the two parts of \<open>up\<close> (\<open>up.subfunctions\<close>): writing to them writes to \<open>up\<close>.
\<close>

record locals =
  velocity :: field
  pressure :: field
  uold :: field
  uint :: field
  det_forcing :: field
  time :: real
  time_to_velocity :: trajectory
  time_to_pressure :: trajectory
  time_to_velocity_midpoints :: trajectory

text \<open>The current value of a symbol; \<open>u\<close>, \<open>p\<close> are the unknown, \<open>v\<close>, \<open>q\<close> test functions.\<close>

fun symbol_value ::
  "('bc, 'ns) arguments \<Rightarrow> locals \<Rightarrow> real \<Rightarrow> real \<Rightarrow> symbol \<Rightarrow> cval option" where
  "symbol_value a s tau dW sym_uold = Some (Field (uold s))"
| "symbol_value a s tau dW sym_uint = Some (Field (uint s))"
| "symbol_value a s tau dW sym_det_forcing = Some (Field (det_forcing s))"
| "symbol_value a s tau dW sym_noise_coefficient = Some (Field (noise_coefficient a))"
| "symbol_value a s tau dW sym_tau = Some (Scalar tau)"
| "symbol_value a s tau dW sym_dW = Some (Scalar dW)"
| "symbol_value a s tau dW sym_Re = Some (Scalar (Reynolds_number a))"
| "symbol_value a s tau dW sym_u = None"
| "symbol_value a s tau dW sym_p = None"
| "symbol_value a s tau dW sym_v = None"
| "symbol_value a s tau dW sym_q = None"

definition coefficient_values ::
  "('bc, 'ns) arguments \<Rightarrow> locals \<Rightarrow> real \<Rightarrow> real \<Rightarrow> ufl \<Rightarrow> (symbol \<times> cval) list" where
  "coefficient_values a s tau dW F =
     List.map_filter (\<lambda>y. map_option (Pair y) (symbol_value a s tau dW y))
       (remdups (symbols F))"

text \<open>
  \<open>if time_to_det_forcing: det_forcing.assign(time_to_det_forcing[time])\<close>: \<open>None\<close> and
  the empty dictionary are false; a missing time raises \<open>KeyError\<close>.
\<close>

definition set_det_forcing :: "trajectory option \<Rightarrow> real \<Rightarrow> field \<Rightarrow> error + field" where
  "set_det_forcing forcing t current =
    (case forcing of
       None \<Rightarrow> Inr current
     | Some d \<Rightarrow> if d = [] then Inr current else dict_get d t)"

text \<open>
  The end of the loop body: \<open>uold.assign(velocity)\<close>, or for the approximation of
  averages \<open>if index >= 1: uold.assign(uint)\<close> followed by \<open>uint.assign(velocity)\<close>.
\<close>

definition proceed :: "pStokesAlgorithm \<Rightarrow> nat \<Rightarrow> locals \<Rightarrow> locals" where
  "proceed algorithm index s =
    (if algorithm = implicitEuler_mixedFEM_linearMulti_withSymGrad_approxOfAverages
     then s\<lparr>uold := (if index \<ge> 1 then uint s else uold s), uint := velocity s\<rparr>
     else s\<lparr>uold := velocity s\<rparr>)"

text \<open>
  The lines under \<open>#correct mean-value of pressure\<close>:
  \<open>mean_p = Constant(assemble(inner(p,1)*dx))\<close> and
  \<open>pressure.dat.data[:] = pressure.dat.data - Function(pressure_space).assign(mean_p).dat.data\<close>.
\<close>

definition correct_mean_value :: "('bc, 'ns) SpaceDiscretisation \<Rightarrow> field \<Rightarrow> field" where
  "correct_mean_value sd pres =
    (let mean_p = assemble_inner_p_1_dx sd pres
     in map2 (-) pres (assign_Constant (pressure_space sd) mean_p))"

text \<open>
  The first solve of a step,
  \<open>solve(VariationalForm == 0, up, bcs=space_disc.bcs_mixed, nullspace=space_disc.null)\<close>,
  with the values \<open>tau\<close> and \<open>dW\<close> assigned at the top of the loop body.
\<close>

definition default_solve ::
  "pStokesAlgorithm \<Rightarrow> ('bc, 'ns) arguments \<Rightarrow> locals \<Rightarrow> real \<Rightarrow> real \<Rightarrow> ('bc, 'ns) solver_call" where
  "default_solve algorithm a s tau dW =
    (let F = VariationalForm algorithm (p_value a) (kappa_value a) (noise_intensity a)
     in \<lparr>call_form = F,
         call_coefficients = coefficient_values a s tau dW F,
         call_up = (velocity s, pressure s),
         call_bcs = bcs_mixed (space_disc a),
         call_nullspace = nullspace (space_disc a),
         call_solver_parameters = None\<rparr>)"

text \<open>
  One pass of the loop body for \<open>index\<close>. The second component lists the solver calls of
  this step (empty when the step raises before solving).
\<close>

definition time_step ::
  "('bc, 'ns) solve \<Rightarrow> pStokesAlgorithm \<Rightarrow> ('bc, 'ns) arguments \<Rightarrow> real list \<Rightarrow> locals \<Rightarrow> nat
     \<Rightarrow> (error + locals) \<times> ('bc, 'ns) solver_call list list" where
  "time_step solve algorithm a time_increments s index =
    (let dW = noise_steps a ! index;
         tau = time_increments ! index;
         t = time s + time_increments ! index
     in case set_det_forcing (time_to_det_forcing a) t (det_forcing s) of
          Inl e \<Rightarrow> (Inl e, [])
        | Inr forcing \<Rightarrow>
           (let s1 = s\<lparr>time := t, det_forcing := forcing\<rparr>;
                call = default_solve algorithm a s1 tau dW
            in case solve_or_retry solve (fallback_parameters algorithm) call of
                 (Raised e, up', attempts) \<Rightarrow> (Inl e, [attempts])
               | (Converged, (vel, pres), attempts) \<Rightarrow>
                  (let pres' = correct_mean_value (space_disc a) pres;
                       s2 = s1\<lparr>velocity := vel, pressure := pres',
                               time_to_velocity := dict_set (time_to_velocity s1) t vel,
                               time_to_velocity_midpoints :=
                                 (if algorithm = CrankNicolson_mixedFEM_strato_transportNoise_withAntisym
                                  then dict_set (time_to_velocity_midpoints s1) t
                                         (map2 (\<lambda>x y. (x + y) / 2) vel (uold s1))
                                  else time_to_velocity_midpoints s1),
                               time_to_pressure := dict_set (time_to_pressure s1) t pres'\<rparr>
                   in (Inr (proceed algorithm index s2), [attempts]))))"

text \<open>\<open>for index in range(len(time_increments))\<close>; an exception ends the loop.\<close>

fun time_stepping ::
  "('bc, 'ns) solve \<Rightarrow> pStokesAlgorithm \<Rightarrow> ('bc, 'ns) arguments \<Rightarrow> real list \<Rightarrow> nat list
     \<Rightarrow> locals \<Rightarrow> (error + locals) \<times> ('bc, 'ns) solver_call list list" where
  "time_stepping solve algorithm a time_increments [] s = (Inr s, [])"
| "time_stepping solve algorithm a time_increments (index # rest) s =
    (case time_step solve algorithm a time_increments s index of
       (Inl e, calls) \<Rightarrow> (Inl e, calls)
     | (Inr s', calls) \<Rightarrow>
         (case time_stepping solve algorithm a time_increments rest s' of
            (r, calls') \<Rightarrow> (r, calls @ calls')))"

subsection \<open>The algorithms\<close>

text \<open>
  The state before the length check: \<open>up\<close>, \<open>upold\<close> and the forcing are new functions,
  \<open>uold\<close> (and \<open>uint\<close>) hold the initial condition, and the dictionaries hold the
  initial-time snapshot \<open>deepcopy(uold)\<close>, \<open>deepcopy(pold)\<close> (and, with anti-symmetrisation,
  \<open>deepcopy(det_forcing)\<close> as first midpoint).
\<close>

definition initial_locals :: "pStokesAlgorithm \<Rightarrow> ('bc, 'ns) arguments \<Rightarrow> real \<Rightarrow> locals" where
  "initial_locals algorithm a initial_time =
    \<lparr>velocity = Function (velocity_space (space_disc a)),
     pressure = Function (pressure_space (space_disc a)),
     uold = initial_condition a,
     uint = initial_condition a,
     det_forcing = Function (velocity_space (space_disc a)),
     time = initial_time,
     time_to_velocity = dict_set [] initial_time (initial_condition a),
     time_to_pressure = dict_set [] initial_time (Function (pressure_space (space_disc a))),
     time_to_velocity_midpoints =
       (if algorithm = CrankNicolson_mixedFEM_strato_transportNoise_withAntisym
        then dict_set [] initial_time (Function (velocity_space (space_disc a)))
        else [])\<rparr>"

text \<open>What the \<open>return\<close> statement returns: a pair, or a triple with the midpoints.\<close>

datatype returned =
  Return2 trajectory trajectory
  | Return3 trajectory trajectory trajectory

definition return_statement :: "pStokesAlgorithm \<Rightarrow> locals \<Rightarrow> returned" where
  "return_statement algorithm s =
    (if algorithm = CrankNicolson_mixedFEM_strato_transportNoise_withAntisym
     then Return3 (time_to_velocity s) (time_to_pressure s) (time_to_velocity_midpoints s)
     else Return2 (time_to_velocity s) (time_to_pressure s))"

text \<open>
  The body of each of the ten functions. The second component of the result lists, per
  time step that reached the solver, the solver calls of that step.
\<close>

definition call_algorithm ::
  "('bc, 'ns) solve \<Rightarrow> pStokesAlgorithm \<Rightarrow> ('bc, 'ns) arguments
     \<Rightarrow> (error + returned) \<times> ('bc, 'ns) solver_call list list" where
  "call_algorithm solve algorithm a =
    (case trajectory_to_incremets (time_grid a) of
       Inl e \<Rightarrow> (Inl e, [])
     | Inr (initial_time, time_increments) \<Rightarrow>
        (let s0 = initial_locals algorithm a initial_time
         in if \<not> length time_increments = length (noise_steps a) then (Inl ValueError, [])
            else
             case time_stepping solve algorithm a time_increments
                    [0..<length time_increments] s0 of
               (Inl e, calls) \<Rightarrow> (Inl e, calls)
             | (Inr s, calls) \<Rightarrow> (Inr (return_statement algorithm s), calls)))"



section \<open>The driver (run_TH3.py)\<close>

subsection \<open>Configuration and collaborators\<close>

text \<open>
  The constants of configs/global_configs.py that the modelled part of the driver reads.
\<close>

record global_configs =
  KAPPA_VALUE :: real
  REFINEMENT_LEVELS :: "int list"
  MC_SAMPLES :: int
  NOISE_INTENSITY :: real
  TIME_CONVERGENCE :: bool
  STABILITY_CHECK :: bool
  ENERGY_CHECK :: bool
  STATISTICS_CHECK :: bool

definition gcf :: global_configs where
  "gcf =
    \<lparr>KAPPA_VALUE = 1/10, REFINEMENT_LEVELS = [2..9], MC_SAMPLES = 1000, NOISE_INTENSITY = 1,
     TIME_CONVERGENCE = True, STABILITY_CHECK = True, ENERGY_CHECK = True,
     STATISTICS_CHECK = True\<rparr>"

text \<open>
  The driver imports its local configuration from \<open>configs.TaylorHood_p3\<close>, which is not
  among the sources (configs/ScottVogelius_p1_5.py shows the layout); its constants are
  a parameter.
\<close>

record local_configs =
  P_VALUE :: real
  TIME_DIRECTORYNAME :: string
  STABILITY_DIRECTORYNAME :: string
  ENERGY_DIRECTORYNAME :: string
  VTK_DIRECTORY :: string
  STATISTICS_DIRECTORYNAME :: string

text \<open>
  \<open>TimeDiscretisation\<close> (src/discretisation/time.py, not among the sources) is used
  through its attributes only.
\<close>

record TimeDiscretisation =
  refinement_levels :: "int list"
  initial_time :: real
  end_time :: real
  ref_to_time_grid :: "(int, real list) dict"

type_synonym multilevel = "(int, trajectory) dict"

type_synonym increments = "(int, real list) dict"

text \<open>
  A sampling strategy (src/noise.py, not among the sources) maps the refinement levels
  and the time interval to a dictionary from level to noise increments. It is random:
  the driver's strategy is a parameter indexed by the number of the call.
\<close>

type_synonym SamplingStrategy = "int list \<Rightarrow> real \<Rightarrow> real \<Rightarrow> increments"

text \<open>Python's \<open>xs[-1]\<close>.\<close>

definition index_last :: "'a list \<Rightarrow> error + 'a" where
  "index_last xs = (if xs = [] then Inl IndexError else Inr (last xs))"

subsection \<open>\<open>generate_one\<close>\<close>

text \<open>
  The body of \<open>for level in ref_to_noise_increments\<close>. The call passes
  \<open>noise_intensity\<close> by keyword, which raises \<open>TypeError\<close> for a function that does not
  declare that parameter; \<open>time_to_det_forcing\<close> keeps its default \<open>None\<close> and
  \<open>Reynolds_number\<close> is 1. The result is unpacked into exactly two targets, which raises
  \<open>ValueError\<close> for a result of three components.
\<close>

fun solve_levels ::
  "('bc, 'ns) solve \<Rightarrow> TimeDiscretisation \<Rightarrow> ('bc, 'ns) SpaceDiscretisation \<Rightarrow> field \<Rightarrow> field
     \<Rightarrow> real \<Rightarrow> real \<Rightarrow> real \<Rightarrow> pStokesAlgorithm \<Rightarrow> increments
     \<Rightarrow> int list \<Rightarrow> multilevel \<Rightarrow> multilevel \<Rightarrow> error + (multilevel \<times> multilevel)" where
  "solve_levels solve time_disc sd ic nc pv kv ni algorithm ref_to_noise_increments
      [] ref_to_time_to_velocity ref_to_time_to_pressure
    = Inr (ref_to_time_to_velocity, ref_to_time_to_pressure)"
| "solve_levels solve time_disc sd ic nc pv kv ni algorithm ref_to_noise_increments
      (level # levels) ref_to_time_to_velocity ref_to_time_to_pressure
    = (case dict_get (ref_to_time_grid time_disc) level of
         Inl e \<Rightarrow> Inl e
       | Inr grid \<Rightarrow>
          (case dict_get ref_to_noise_increments level of
             Inl e \<Rightarrow> Inl e
           | Inr steps \<Rightarrow>
              if \<not> has_noise_intensity algorithm then Inl TypeError
              else
               (case fst (call_algorithm solve algorithm
                       \<lparr>space_disc = sd, time_grid = grid, noise_steps = steps,
                        noise_coefficient = nc, initial_condition = ic, p_value = pv,
                        kappa_value = kv, time_to_det_forcing = None,
                        Reynolds_number = 1, noise_intensity = ni\<rparr>) of
                  Inl e \<Rightarrow> Inl e
                | Inr (Return2 tv tp) \<Rightarrow>
                    solve_levels solve time_disc sd ic nc pv kv ni algorithm
                      ref_to_noise_increments levels
                      (dict_set ref_to_time_to_velocity level tv)
                      (dict_set ref_to_time_to_pressure level tp)
                | Inr (Return3 tv tp tm) \<Rightarrow> Inl ValueError)))"

definition generate_one ::
  "('bc, 'ns) solve \<Rightarrow> TimeDiscretisation \<Rightarrow> ('bc, 'ns) SpaceDiscretisation \<Rightarrow> field \<Rightarrow> field
     \<Rightarrow> real \<Rightarrow> real \<Rightarrow> real \<Rightarrow> pStokesAlgorithm \<Rightarrow> SamplingStrategy
     \<Rightarrow> error + (increments \<times> multilevel \<times> multilevel)" where
  "generate_one solve time_disc sd ic nc pv kv ni algorithm sampling_strategy =
    (let ref_to_noise_increments =
           sampling_strategy (refinement_levels time_disc) (initial_time time_disc)
             (end_time time_disc)
     in case solve_levels solve time_disc sd ic nc pv kv ni algorithm ref_to_noise_increments
               (keys ref_to_noise_increments) [] [] of
          Inl e \<Rightarrow> Inl e
        | Inr (ref_to_time_to_velocity, ref_to_time_to_pressure) \<Rightarrow>
            Inr (ref_to_noise_increments, ref_to_time_to_velocity, ref_to_time_to_pressure))"

subsection \<open>\<open>generate\<close>: the Monte Carlo loop and the storing of processed data\<close>

text \<open>
  The process managers and statistics objects of the driver. Their classes are not among
  the sources; a call of one of their methods is recorded as an event, with the arguments
  the driver passes. According to the spec, \<open>ProcessManager.update\<close> hands the same
  arguments to the \<open>update\<close> of every member.
\<close>

datatype manager =
  time_convergence_velocity | time_convergence_pressure
  | stability_check_velocity | stability_check_pressure
  | energy_check_velocity
  | statistics_velocity | statistics_pressure

datatype argument =
  Levels multilevel
  | Reference trajectory
  | Noise increments

datatype event =
  Generate_one nat
  | Update nat manager "argument list"
  | Logging_info manager
  | Save manager string
  | Plot manager string
  | Plot_individual manager string

text \<open>
  The updates of one iteration, after \<open>generate_one\<close> has returned. Looking up the finest
  level can raise; the events up to that point have happened.
\<close>

definition update_managers ::
  "global_configs \<Rightarrow> TimeDiscretisation \<Rightarrow> nat \<Rightarrow> increments \<Rightarrow> multilevel \<Rightarrow> multilevel
     \<Rightarrow> error option \<times> event list" where
  "update_managers g time_disc k ref_to_noise_increments ref_to_time_to_velocity
      ref_to_time_to_pressure =
    (let comparison =
          (if TIME_CONVERGENCE g then
             (case index_last (refinement_levels time_disc) of
                Inl e \<Rightarrow> (Some e, [])
              | Inr finest \<Rightarrow>
                 (case dict_get ref_to_time_to_velocity finest of
                    Inl e \<Rightarrow> (Some e, [])
                  | Inr time_to_fine_velocity \<Rightarrow>
                     (case dict_get ref_to_time_to_pressure finest of
                        Inl e \<Rightarrow>
                          (Some e,
                           [Update k time_convergence_velocity
                              [Levels ref_to_time_to_velocity, Reference time_to_fine_velocity]])
                      | Inr time_to_fine_pressure \<Rightarrow>
                          (None,
                           [Update k time_convergence_velocity
                              [Levels ref_to_time_to_velocity, Reference time_to_fine_velocity],
                            Update k time_convergence_pressure
                              [Levels ref_to_time_to_pressure, Reference time_to_fine_pressure]]))))
           else (None, []));
         stability =
          (if STABILITY_CHECK g then
             [Update k stability_check_velocity [Levels ref_to_time_to_velocity],
              Update k stability_check_pressure [Levels ref_to_time_to_pressure]]
           else []);
         energy =
          (if ENERGY_CHECK g then
             [Update k energy_check_velocity
                [Levels ref_to_time_to_velocity, Noise ref_to_noise_increments]]
           else []);
         statistics =
          (if STATISTICS_CHECK g then
             [Update k statistics_velocity [Levels ref_to_time_to_velocity],
              Update k statistics_pressure [Levels ref_to_time_to_pressure]]
           else [])
     in case comparison of
          (Some e, events) \<Rightarrow> (Some e, events)
        | (None, events) \<Rightarrow> (None, events @ stability @ energy @ statistics))"

text \<open>\<open>for k in new_seeds\<close>: generate one sample, then update; an exception ends the run.\<close>

fun monte_carlo ::
  "('bc, 'ns) solve \<Rightarrow> global_configs \<Rightarrow> local_configs \<Rightarrow> TimeDiscretisation
     \<Rightarrow> ('bc, 'ns) SpaceDiscretisation \<Rightarrow> field \<Rightarrow> field \<Rightarrow> pStokesAlgorithm
     \<Rightarrow> (nat \<Rightarrow> SamplingStrategy) \<Rightarrow> nat list \<Rightarrow> error option \<times> event list" where
  "monte_carlo solve g cf time_disc sd ic nc algorithm sampling [] = (None, [])"
| "monte_carlo solve g cf time_disc sd ic nc algorithm sampling (k # new_seeds) =
    (case generate_one solve time_disc sd ic nc (P_VALUE cf) (KAPPA_VALUE g)
            (NOISE_INTENSITY g) algorithm (sampling k) of
       Inl e \<Rightarrow> (Some e, [Generate_one k])
     | Inr (ref_to_noise_increments, ref_to_time_to_velocity, ref_to_time_to_pressure) \<Rightarrow>
        (case update_managers g time_disc k ref_to_noise_increments ref_to_time_to_velocity
                ref_to_time_to_pressure of
           (Some e, events) \<Rightarrow> (Some e, Generate_one k # events)
         | (None, events) \<Rightarrow>
            (case monte_carlo solve g cf time_disc sd ic nc algorithm sampling new_seeds of
               (r, later) \<Rightarrow> (r, Generate_one k # events @ later))))"

text \<open>The part of \<open>generate\<close> under \<open>### storing processed data\<close>.\<close>

definition store_processed_data :: "global_configs \<Rightarrow> local_configs \<Rightarrow> event list" where
  "store_processed_data g cf =
    (if TIME_CONVERGENCE g then
       [Logging_info time_convergence_velocity, Logging_info time_convergence_pressure,
        Save time_convergence_velocity (TIME_DIRECTORYNAME cf),
        Save time_convergence_pressure (TIME_DIRECTORYNAME cf)]
     else [])
    @ (if STABILITY_CHECK g then
       [Logging_info stability_check_velocity, Logging_info stability_check_pressure,
        Save stability_check_velocity (STABILITY_DIRECTORYNAME cf),
        Save stability_check_pressure (STABILITY_DIRECTORYNAME cf)]
     else [])
    @ (if ENERGY_CHECK g then
       [Save energy_check_velocity (ENERGY_DIRECTORYNAME cf),
        Plot energy_check_velocity (ENERGY_DIRECTORYNAME cf),
        Plot_individual energy_check_velocity (ENERGY_DIRECTORYNAME cf)]
     else [])
    @ (if STATISTICS_CHECK g then
       [Save statistics_velocity (VTK_DIRECTORY cf @ ''/'' @ STATISTICS_DIRECTORYNAME cf),
        Save statistics_pressure (VTK_DIRECTORY cf @ ''/'' @ STATISTICS_DIRECTORYNAME cf)]
     else [])"

text \<open>
  \<open>generate\<close> from the start of the Monte Carlo iteration on; the set-up before it
  (discretisations, data, algorithm and sampling selection, construction of the
  managers) provides the parameters. \<open>range(MC_SAMPLES)\<close> is empty for a negative number.
\<close>

definition generate ::
  "('bc, 'ns) solve \<Rightarrow> global_configs \<Rightarrow> local_configs \<Rightarrow> TimeDiscretisation
     \<Rightarrow> ('bc, 'ns) SpaceDiscretisation \<Rightarrow> field \<Rightarrow> field \<Rightarrow> pStokesAlgorithm
     \<Rightarrow> (nat \<Rightarrow> SamplingStrategy) \<Rightarrow> (error + unit) \<times> event list" where
  "generate solve g cf time_disc sd ic nc algorithm sampling =
    (case monte_carlo solve g cf time_disc sd ic nc algorithm sampling
            [0..<nat (MC_SAMPLES g)] of
       (Some e, events) \<Rightarrow> (Inl e, events)
     | (None, events) \<Rightarrow> (Inr (), events @ store_processed_data g cf))"

text \<open>
  The method calls of a trace without their arguments, and the fixed orders in which one
  iteration updates and the end of the run stores, for the enabled checks.
\<close>

datatype method_call =
  generate_one_call
  | update_call manager
  | logging_info_call manager
  | save_call manager
  | plot_call manager
  | plot_individual_call manager

fun method_of :: "event \<Rightarrow> method_call" where
  "method_of (Generate_one k) = generate_one_call"
| "method_of (Update k m args) = update_call m"
| "method_of (Logging_info m) = logging_info_call m"
| "method_of (Save m directory) = save_call m"
| "method_of (Plot m directory) = plot_call m"
| "method_of (Plot_individual m directory) = plot_individual_call m"

definition update_order :: "global_configs \<Rightarrow> manager list" where
  "update_order g =
    (if TIME_CONVERGENCE g then [time_convergence_velocity, time_convergence_pressure] else [])
    @ (if STABILITY_CHECK g then [stability_check_velocity, stability_check_pressure] else [])
    @ (if ENERGY_CHECK g then [energy_check_velocity] else [])
    @ (if STATISTICS_CHECK g then [statistics_velocity, statistics_pressure] else [])"

definition storing_order :: "global_configs \<Rightarrow> method_call list" where
  "storing_order g =
    (if TIME_CONVERGENCE g then
       [logging_info_call time_convergence_velocity, logging_info_call time_convergence_pressure,
        save_call time_convergence_velocity, save_call time_convergence_pressure]
     else [])
    @ (if STABILITY_CHECK g then
       [logging_info_call stability_check_velocity, logging_info_call stability_check_pressure,
        save_call stability_check_velocity, save_call stability_check_pressure]
     else [])
    @ (if ENERGY_CHECK g then
       [save_call energy_check_velocity, plot_call energy_check_velocity,
        plot_individual_call energy_check_velocity]
     else [])
    @ (if STATISTICS_CHECK g then
       [save_call statistics_velocity, save_call statistics_pressure]
     else [])"

text \<open>A small run: two refinement levels, one and two time steps, two samples.\<close>

definition two_levels :: TimeDiscretisation where
  "two_levels =
    \<lparr>refinement_levels = [0, 1], initial_time = 0, end_time = 1,
     ref_to_time_grid = [(0, [0, 1]), (1, [0, 1/2, 1])]\<rparr>"

definition fixed_sampling :: "nat \<Rightarrow> SamplingStrategy" where
  "fixed_sampling k levels t0 t1 = map (\<lambda>l. (l, replicate (2 ^ nat l) (real k))) levels"

definition short_run :: global_configs where
  "short_run = gcf\<lparr>MC_SAMPLES := 2\<rparr>"

definition directories :: local_configs where
  "directories =
    \<lparr>P_VALUE = 3, TIME_DIRECTORYNAME = ''convergence_results/TH3'',
     STABILITY_DIRECTORYNAME = ''stability_results/TH3'',
     ENERGY_DIRECTORYNAME = ''energy_results/TH3'', VTK_DIRECTORY = ''vtk'',
     STATISTICS_DIRECTORYNAME = ''statistic_results/TH3''\<rparr>"

section \<open>Concrete inputs\<close>

text \<open>
  A space with two velocity and two pressure degrees of freedom on a domain of area one,
  a grid of two time steps, and two solvers: one that converges at once, one that raises
  \<open>ConvergenceError\<close> whenever it is called without solver parameters.
\<close>

definition two_cells :: "(unit, unit) SpaceDiscretisation" where
  "two_cells =
    \<lparr>velocity_space = 2, pressure_space = 2, pressure_basis_integrals = [1/2, 1/2],
     bcs_mixed = (), nullspace = ()\<rparr>"

definition two_steps :: "(unit, unit) arguments" where
  "two_steps =
    \<lparr>space_disc = two_cells, time_grid = [0, 1/2, 1], noise_steps = [1/10, -1/5],
     noise_coefficient = [1, 1], initial_condition = [1, 2], p_value = 3/2,
     kappa_value = 1/10, time_to_det_forcing = None, Reynolds_number = 1,
     noise_intensity = 1\<rparr>"

definition willing_solver :: "(unit, unit) solve" where
  "willing_solver call = (Converged, (map (\<lambda>x. x + 1) (fst (call_up call)), [3, 5]))"

text \<open>A solver whose velocity moves by the noise increment \<open>dW\<close> of the step.\<close>

definition noisy_solver :: "(unit, unit) solve" where
  "noisy_solver call =
    (case map_of (call_coefficients call) sym_dW of
       Some (Scalar c) \<Rightarrow> (Converged, (map (\<lambda>x. x + c) (fst (call_up call)), [3, 5]))
     | _ \<Rightarrow> (Raised SolverError, call_up call))"

definition stubborn_solver :: "(unit, unit) solve" where
  "stubborn_solver call =
    (if call_solver_parameters call = None then (Raised ConvergenceError, call_up call)
     else (Converged, (map (\<lambda>x. x + 1) (fst (call_up call)), [3, 5])))"

section \<open>The retry block and the length check\<close>

lemmas run_defs =
  call_algorithm_def trajectory_to_incremets_def initial_locals_def time_step_def
  set_det_forcing_def solve_or_retry_def default_solve_def fallback_parameters_def
  correct_mean_value_def assemble_inner_p_1_dx_def assign_Constant_def proceed_def
  Function_def return_statement_def dict_get_def keys_def Let_def

lemmas input_defs = two_steps_def two_cells_def willing_solver_def stubborn_solver_def








text \<open>
  C2. When the number of time increments derived from the time grid differs from the
  number of noise steps, every algorithm raises \<open>ValueError\<close> and has made no solver call;
  at that moment its two dictionaries hold the initial-time snapshot only.
\<close>

theorem length_mismatch_raises_ValueError:
  assumes "trajectory_to_incremets (time_grid a) = Inr (t0, time_increments)"
      and "length time_increments \<noteq> length (noise_steps a)"
  shows "call_algorithm solve algorithm a = (Inl ValueError, [])
       \<and> keys (time_to_velocity (initial_locals algorithm a t0)) = [t0]
       \<and> keys (time_to_pressure (initial_locals algorithm a t0)) = [t0]"
  using assms by (simp add: call_algorithm_def Let_def initial_locals_def keys_def)

theorem length_mismatch_raises_ValueError_witness:
  "trajectory_to_incremets (time_grid (two_steps\<lparr>noise_steps := [1/10]\<rparr>)) = Inr (0, [1/2, 1/2])
   \<and> length [1/2, 1/2 :: real] \<noteq> length (noise_steps (two_steps\<lparr>noise_steps := [1/10]\<rparr>))
   \<and> call_algorithm willing_solver implicitEuler_mixedFEM (two_steps\<lparr>noise_steps := [1/10]\<rparr>)
       = (Inl ValueError, [])"
proof -
  have h1: "trajectory_to_incremets (time_grid (two_steps\<lparr>noise_steps := [1/10]\<rparr>))
      = Inr (0, [1/2, 1/2])"
    by (simp add: trajectory_to_incremets_def two_steps_def)
  have h2: "length [1/2, 1/2 :: real] \<noteq> length (noise_steps (two_steps\<lparr>noise_steps := [1/10]\<rparr>))"
    by (simp add: two_steps_def)
  from length_mismatch_raises_ValueError[OF h1 h2, of willing_solver implicitEuler_mixedFEM] h1 h2
  show ?thesis by blast
qed




section \<open>The converters\<close>

text \<open>
  C7 as stated fails for \<open>get_mesh\<close>: the mesh names \<open>unit_square_non_singular\<close> and
  \<open>unit L-shape\<close> both have a \<open>case\<close> of their own, yet the first raises
  \<open>NotImplementedError\<close> for a space resolution other than low, intermediate and high,
  and the second raises it always.
\<close>

theorem get_mesh_raises_for_listed_names:
  "''unit_square_non_singular'' \<in> set mesh_names
   \<and> get_mesh ''unit_square_non_singular'' ''very high'' = Inl NotImplementedError
   \<and> ''unit L-shape'' \<in> set mesh_names
   \<and> get_mesh ''unit L-shape'' ''low'' = Inl NotImplementedError"
  by (simp add: get_mesh_def mesh_names_def)

text \<open>
  C7, as the code has it. \<open>get_algorithm_by_name\<close> and \<open>get_function\<close> return an
  implementation exactly for the names they list and raise \<open>NotImplementedError\<close> for
  every other string. \<open>get_mesh\<close> returns a mesh exactly for \<open>unit square\<close> (with any
  resolution) and for \<open>unit_square_non_singular\<close> with resolution low, intermediate or
  high; for every other pair of strings it raises \<open>NotImplementedError\<close>.
\<close>

theorem converters_return_or_raise_NotImplementedError:
  "(get_algorithm_by_name name = Inl NotImplementedError) = (name \<notin> set algorithm_names)
   \<and> (\<exists>algorithm. get_algorithm_by_name name = Inr algorithm) = (name \<in> set algorithm_names)
   \<and> (get_function name index_x index_y = Inl NotImplementedError)
        = (name \<notin> set function_names)
   \<and> (\<exists>f. get_function name index_x index_y = Inr f) = (name \<in> set function_names)
   \<and> (\<exists>m. get_mesh name resolution = Inr m)
        = (name = ''unit square''
           \<or> name = ''unit_square_non_singular'' \<and> resolution \<in> set space_resolutions)
   \<and> (get_mesh name resolution = Inl NotImplementedError)
        = (\<not> (name = ''unit square''
           \<or> name = ''unit_square_non_singular'' \<and> resolution \<in> set space_resolutions))"
proof -
  have a1: "(get_algorithm_by_name name = Inl NotImplementedError) = (name \<notin> set algorithm_names)"
    by (simp add: get_algorithm_by_name_def algorithm_names_def)
  have a2: "(\<exists>algorithm. get_algorithm_by_name name = Inr algorithm) = (name \<in> set algorithm_names)"
    by (simp add: get_algorithm_by_name_def algorithm_names_def)
  have f1: "(get_function name index_x index_y = Inl NotImplementedError)
        = (name \<notin> set function_names)"
    by (simp add: get_function_def function_names_def)
  have f2: "(\<exists>f. get_function name index_x index_y = Inr f) = (name \<in> set function_names)"
    by (simp add: get_function_def function_names_def)
  have m1: "(\<exists>m. get_mesh name resolution = Inr m)
        = (name = ''unit square''
           \<or> name = ''unit_square_non_singular'' \<and> resolution \<in> set space_resolutions)"
    by (simp add: get_mesh_def space_resolutions_def)
  have m2: "(get_mesh name resolution = Inl NotImplementedError)
        = (\<not> (name = ''unit square''
           \<or> name = ''unit_square_non_singular'' \<and> resolution \<in> set space_resolutions))"
    by (simp add: get_mesh_def space_resolutions_def)
  from a1 a2 f1 f2 m1 m2 show ?thesis by blast
qed

section \<open>Forms without the noise coefficient\<close>

lemma symbol_value_noise_coefficient:
  "y \<noteq> sym_noise_coefficient \<Longrightarrow>
     symbol_value (a\<lparr>noise_coefficient := c\<rparr>) s tau dW y = symbol_value a s tau dW y"
  by (cases y) simp_all

lemma map_filter_cong_set:
  "(\<And>x. x \<in> set xs \<Longrightarrow> f x = g x) \<Longrightarrow> List.map_filter f xs = List.map_filter g xs"
  by (induction xs) (auto simp: List.map_filter_simps split: option.splits)

lemma coefficient_values_noise_coefficient:
  assumes "sym_noise_coefficient \<notin> set (symbols F)"
  shows "coefficient_values (a\<lparr>noise_coefficient := c\<rparr>) s tau dW F
       = coefficient_values a s tau dW F"
  unfolding coefficient_values_def
proof (rule map_filter_cong_set)
  fix y assume "y \<in> set (remdups (symbols F))"
  with assms have "y \<noteq> sym_noise_coefficient" by auto
  then show "map_option (Pair y) (symbol_value (a\<lparr>noise_coefficient := c\<rparr>) s tau dW y)
           = map_option (Pair y) (symbol_value a s tau dW y)"
    by (simp add: symbol_value_noise_coefficient)
qed

lemma default_solve_noise_coefficient:
  assumes "sym_noise_coefficient \<notin>
     set (symbols (VariationalForm algorithm (p_value a) (kappa_value a) (noise_intensity a)))"
  shows "default_solve algorithm (a\<lparr>noise_coefficient := c\<rparr>) s tau dW
       = default_solve algorithm a s tau dW"
  using assms by (simp add: default_solve_def Let_def coefficient_values_noise_coefficient)

lemma time_step_noise_coefficient:
  assumes "sym_noise_coefficient \<notin>
     set (symbols (VariationalForm algorithm (p_value a) (kappa_value a) (noise_intensity a)))"
  shows "time_step solve algorithm (a\<lparr>noise_coefficient := c\<rparr>) incs s index
       = time_step solve algorithm a incs s index"
  using assms
  by (simp add: time_step_def Let_def default_solve_noise_coefficient
      cong: sum.case_cong prod.case_cong solve_outcome.case_cong)

lemma time_stepping_noise_coefficient:
  assumes "sym_noise_coefficient \<notin>
     set (symbols (VariationalForm algorithm (p_value a) (kappa_value a) (noise_intensity a)))"
  shows "time_stepping solve algorithm (a\<lparr>noise_coefficient := c\<rparr>) incs idxs s
       = time_stepping solve algorithm a incs idxs s"
  using assms
  by (induction idxs arbitrary: s)
     (simp_all add: time_step_noise_coefficient cong: sum.case_cong prod.case_cong)

lemma initial_locals_noise_coefficient:
  "initial_locals algorithm (a\<lparr>noise_coefficient := c\<rparr>) t = initial_locals algorithm a t"
  by (simp add: initial_locals_def)

lemma call_algorithm_noise_coefficient:
  assumes "sym_noise_coefficient \<notin>
     set (symbols (VariationalForm algorithm (p_value a) (kappa_value a) (noise_intensity a)))"
  shows "call_algorithm solve algorithm (a\<lparr>noise_coefficient := c\<rparr>)
       = call_algorithm solve algorithm a"
  using assms
  by (simp add: call_algorithm_def Let_def initial_locals_noise_coefficient
      time_stepping_noise_coefficient cong: sum.case_cong prod.case_cong if_cong)

text \<open>
  C10. The forms of \<open>implicitEuler_mixedFEM_linearMulti\<close> and
  \<open>implicitEuler_mixedFEM_linearMulti_withSymGrad\<close> do not mention the noise coefficient,
  and for any two noise coefficients and otherwise equal arguments each of the two
  functions returns the same result after the same solver calls.
\<close>

theorem linearMulti_ignores_noise_coefficient:
  "sym_noise_coefficient \<notin> set (symbols (VariationalForm implicitEuler_mixedFEM_linearMulti
       (p_value a) (kappa_value a) (noise_intensity a)))
   \<and> sym_noise_coefficient \<notin> set (symbols
       (VariationalForm implicitEuler_mixedFEM_linearMulti_withSymGrad
          (p_value a) (kappa_value a) (noise_intensity a)))
   \<and> call_algorithm solve implicitEuler_mixedFEM_linearMulti (a\<lparr>noise_coefficient := c1\<rparr>)
     = call_algorithm solve implicitEuler_mixedFEM_linearMulti (a\<lparr>noise_coefficient := c2\<rparr>)
   \<and> call_algorithm solve implicitEuler_mixedFEM_linearMulti_withSymGrad
         (a\<lparr>noise_coefficient := c1\<rparr>)
     = call_algorithm solve implicitEuler_mixedFEM_linearMulti_withSymGrad
         (a\<lparr>noise_coefficient := c2\<rparr>)"
proof -
  have n1: "sym_noise_coefficient \<notin> set (symbols (VariationalForm
      implicitEuler_mixedFEM_linearMulti (p_value a) (kappa_value a) (noise_intensity a)))"
    by simp
  have n2: "sym_noise_coefficient \<notin> set (symbols (VariationalForm
      implicitEuler_mixedFEM_linearMulti_withSymGrad
      (p_value a) (kappa_value a) (noise_intensity a)))"
    by simp
  from n1 n2 show ?thesis
    by (simp add: call_algorithm_noise_coefficient)
qed

section \<open>Trajectories: keys and pressure snapshots\<close>



















lemmas driver_defs =
  generate_def generate_one_def update_managers_def store_processed_data_def index_last_def
  has_noise_intensity_def

lemmas small_run_defs = two_levels_def fixed_sampling_def short_run_def directories_def gcf_def

lemmas evaluation =
  driver_defs small_run_defs run_defs input_defs noisy_solver_def coefficient_values_def
  List.map_filter_simps upt_rec eval_nat_numeral

lemma small_run_completes:
  "fst (generate noisy_solver short_run directories two_levels two_cells [1, 2] [1, 1]
     implicitEuler_mixedFEM_linearMulti_withSymGrad_approxOfAverages fixed_sampling) = Inr ()"
  by (simp add: evaluation)

lemma small_run_second_comparison:
  "Update 1 time_convergence_velocity
     [Levels [(0, [(0, [1, 2]), (1, [1, 1])]),
              (1, [(0, [1, 2]), (1/2, [1, 1]), (1, [2, 2])])],
      Reference [(0, [1, 2]), (1/2, [1, 1]), (1, [2, 2])]]
   \<in> set (snd (generate noisy_solver short_run directories two_levels two_cells [1, 2] [1, 1]
     implicitEuler_mixedFEM_linearMulti_withSymGrad_approxOfAverages fixed_sampling))"
  by (simp add: evaluation)

lemma small_run_sample:
  "generate_one noisy_solver two_levels two_cells [1, 2] [1, 1] (P_VALUE directories)
     (KAPPA_VALUE short_run) (NOISE_INTENSITY short_run)
     implicitEuler_mixedFEM_linearMulti_withSymGrad_approxOfAverages (fixed_sampling 1)
   = Inr ([(0, [1]), (1, [1, 1])],
          [(0, [(0, [1, 2]), (1, [1, 1])]),
           (1, [(0, [1, 2]), (1/2, [1, 1]), (1, [2, 2])])],
          [(0, [(0, [0, 0]), (1, [-1, 1])]),
           (1, [(0, [0, 0]), (1/2, [-1, 1]), (1, [-1, 1])])])"
  by (simp add: evaluation)

section \<open>The driver loop\<close>

lemma update_managers_events:
  assumes "e \<in> set (snd (update_managers g time_disc k noise vel pres))"
  shows "\<exists>m args. e = Update k m args"
  using assms
  by (auto simp: update_managers_def Let_def split: sum.splits if_splits)

lemma update_managers_comparison:
  assumes "Update k' m args \<in> set (snd (update_managers g time_disc k noise vel pres))"
      and "m = time_convergence_velocity \<or> m = time_convergence_pressure"
  shows "TIME_CONVERGENCE g \<and> refinement_levels time_disc \<noteq> []
       \<and> (\<exists>fine. args = [Levels (if m = time_convergence_velocity then vel else pres),
                          Reference fine]
            \<and> dict_get (if m = time_convergence_velocity then vel else pres)
                 (last (refinement_levels time_disc)) = Inr fine)"
  using assms
  by (auto simp: update_managers_def Let_def index_last_def split: sum.splits if_splits)

lemma monte_carlo_updates:
  assumes "Update k m args \<in> set (snd (monte_carlo solve g cf time_disc sd ic nc algorithm
             sampling seeds))"
  shows "\<exists>noise vel pres.
       generate_one solve time_disc sd ic nc (P_VALUE cf) (KAPPA_VALUE g) (NOISE_INTENSITY g)
         algorithm (sampling k) = Inr (noise, vel, pres)
     \<and> Update k m args \<in> set (snd (update_managers g time_disc k noise vel pres))"
  using assms
proof (induction seeds)
  case Nil
  then show ?case by simp
next
  case (Cons j seeds)
  show ?case
  proof (cases "generate_one solve time_disc sd ic nc (P_VALUE cf) (KAPPA_VALUE g)
      (NOISE_INTENSITY g) algorithm (sampling j)")
    case (Inl e)
    with Cons.prems show ?thesis by simp
  next
    case (Inr sample)
    obtain noise vel pres where sample: "sample = (noise, vel, pres)"
      by (cases sample) auto
    obtain r events where um: "update_managers g time_disc j noise vel pres = (r, events)"
      by (cases "update_managers g time_disc j noise vel pres")
    from Cons.prems Inr sample um
    have "Update k m args \<in> set events
        \<or> Update k m args \<in> set (snd (monte_carlo solve g cf time_disc sd ic nc algorithm
             sampling seeds))"
      by (auto split: option.splits prod.splits)
    then show ?thesis
    proof
      assume here: "Update k m args \<in> set events"
      with um update_managers_events[of "Update k m args" g time_disc j noise vel pres]
      have "k = j" by auto
      with here um Inr sample show ?thesis by auto
    next
      assume "Update k m args \<in> set (snd (monte_carlo solve g cf time_disc sd ic nc algorithm
             sampling seeds))"
      then show ?thesis by (rule Cons.IH)
    qed
  qed
qed

lemma generate_updates:
  assumes "Update k m args \<in> set (snd (generate solve g cf time_disc sd ic nc algorithm
             sampling))"
  shows "Update k m args \<in> set (snd (monte_carlo solve g cf time_disc sd ic nc algorithm
             sampling [0..<nat (MC_SAMPLES g)]))"
  using assms
  by (auto simp: generate_def store_processed_data_def split: prod.splits option.splits if_splits)

lemma configured_finest_level:
  "last (REFINEMENT_LEVELS gcf) = Max (set (REFINEMENT_LEVELS gcf))"
proof -
  have "Max {2..9 :: int} = 9"
    by (rule Max_eqI) simp_all
  moreover have "last [2..9 :: int] = 9"
    by (simp add: upto_rec2)
  ultimately show ?thesis by (simp add: gcf_def)
qed

lemma update_managers_methods:
  assumes "fst (update_managers g time_disc k noise vel pres) = None"
  shows "map method_of (snd (update_managers g time_disc k noise vel pres))
       = map update_call (update_order g)"
  using assms
  by (auto simp: update_managers_def update_order_def Let_def split: sum.splits if_splits)

lemma monte_carlo_methods:
  assumes "fst (monte_carlo solve g cf time_disc sd ic nc algorithm sampling seeds) = None"
  shows "map method_of (snd (monte_carlo solve g cf time_disc sd ic nc algorithm sampling seeds))
       = concat (replicate (length seeds)
           (generate_one_call # map update_call (update_order g)))"
  using assms
proof (induction seeds)
  case Nil
  then show ?case by simp
next
  case (Cons j seeds)
  from Cons.prems obtain noise vel pres where
    sample: "generate_one solve time_disc sd ic nc (P_VALUE cf) (KAPPA_VALUE g)
      (NOISE_INTENSITY g) algorithm (sampling j) = Inr (noise, vel, pres)"
    by (auto split: sum.splits)
  obtain r events where um: "update_managers g time_disc j noise vel pres = (r, events)"
    by (cases "update_managers g time_disc j noise vel pres")
  from Cons.prems sample um have r: "r = None"
    and rest: "fst (monte_carlo solve g cf time_disc sd ic nc algorithm sampling seeds) = None"
    by (auto split: option.splits prod.splits)
  from um r update_managers_methods[of g time_disc j noise vel pres]
  have ev: "map method_of events = map update_call (update_order g)" by simp
  from sample um r ev Cons.IH[OF rest] show ?case
    by (cases "monte_carlo solve g cf time_disc sd ic nc algorithm sampling seeds") simp
qed

lemma store_processed_data_methods:
  "map method_of (store_processed_data g cf) = storing_order g"
  by (simp add: store_processed_data_def storing_order_def)

lemma storing_order_distinct:
  "distinct (storing_order g) \<and> generate_one_call \<notin> set (storing_order g)
   \<and> (\<forall>m. update_call m \<notin> set (storing_order g))"
  by (auto simp: storing_order_def)

text \<open>
  C5. Whenever the driver calls \<open>update\<close> of a time-convergence manager in iteration \<open>k\<close>
  (which it does only when time convergence is enabled), the arguments are the velocity
  (respectively pressure) trajectories of all levels of the sample generated in
  iteration \<open>k\<close>, and as reference exactly the trajectory that this sample stores at the
  last refinement level. With the configured refinement levels the last level is the
  largest, that is the finest.
\<close>

theorem reference_is_trajectory_of_last_level:
  assumes "Update k m args \<in> set (snd (generate solve g cf time_disc sd ic nc algorithm
             sampling))"
      and "m = time_convergence_velocity \<or> m = time_convergence_pressure"
  shows "TIME_CONVERGENCE g \<and> refinement_levels time_disc \<noteq> []
       \<and> (\<exists>noise vel pres fine.
            generate_one solve time_disc sd ic nc (P_VALUE cf) (KAPPA_VALUE g)
              (NOISE_INTENSITY g) algorithm (sampling k) = Inr (noise, vel, pres)
          \<and> args = [Levels (if m = time_convergence_velocity then vel else pres),
                     Reference fine]
          \<and> dict_get (if m = time_convergence_velocity then vel else pres)
               (last (refinement_levels time_disc)) = Inr fine)
       \<and> last (REFINEMENT_LEVELS gcf) = Max (set (REFINEMENT_LEVELS gcf))"
proof -
  from monte_carlo_updates[OF generate_updates[OF assms(1)]] obtain noise vel pres where
    sample: "generate_one solve time_disc sd ic nc (P_VALUE cf) (KAPPA_VALUE g)
       (NOISE_INTENSITY g) algorithm (sampling k) = Inr (noise, vel, pres)"
    and here: "Update k m args \<in> set (snd (update_managers g time_disc k noise vel pres))"
    by blast
  from update_managers_comparison[OF here assms(2)] sample configured_finest_level
  show ?thesis by blast
qed

theorem reference_is_trajectory_of_last_level_witness:
  "Update 1 time_convergence_velocity
     [Levels [(0, [(0, [1, 2]), (1, [1, 1])]),
              (1, [(0, [1, 2]), (1/2, [1, 1]), (1, [2, 2])])],
      Reference [(0, [1, 2]), (1/2, [1, 1]), (1, [2, 2])]]
   \<in> set (snd (generate noisy_solver short_run directories two_levels two_cells [1, 2] [1, 1]
     implicitEuler_mixedFEM_linearMulti_withSymGrad_approxOfAverages fixed_sampling))
   \<and> (time_convergence_velocity = time_convergence_velocity
        \<or> time_convergence_velocity = time_convergence_pressure)
   \<and> TIME_CONVERGENCE short_run \<and> refinement_levels two_levels \<noteq> []
   \<and> (\<exists>noise vel pres fine.
        generate_one noisy_solver two_levels two_cells [1, 2] [1, 1] (P_VALUE directories)
          (KAPPA_VALUE short_run) (NOISE_INTENSITY short_run)
          implicitEuler_mixedFEM_linearMulti_withSymGrad_approxOfAverages (fixed_sampling 1)
          = Inr (noise, vel, pres)
      \<and> [Levels [(0, [(0, [1, 2]), (1, [1, 1])]),
                  (1, [(0, [1, 2]), (1/2, [1, 1]), (1, [2, 2])])],
          Reference [(0, [1, 2]), (1/2, [1, 1]), (1, [2, 2])]]
         = [Levels vel, Reference fine]
      \<and> dict_get vel (last (refinement_levels two_levels)) = Inr fine)"
proof -
  have h2: "time_convergence_velocity = time_convergence_velocity
        \<or> time_convergence_velocity = time_convergence_pressure"
    by simp
  from reference_is_trajectory_of_last_level[OF small_run_second_comparison h2]
    small_run_second_comparison
  show ?thesis by simp
qed

text \<open>
  C6. In a run that completes, the sequence of calls is: for each of the \<open>MC_SAMPLES\<close>
  iterations one call of \<open>generate_one\<close> followed by the \<open>update\<close> of every enabled manager
  in one fixed order; after the last iteration, and only there, the logging, \<open>save\<close>,
  \<open>plot\<close> and \<open>plot_individual\<close> calls of the enabled managers, each at most once.
\<close>

theorem driver_calls_in_order:
  assumes "fst (generate solve g cf time_disc sd ic nc algorithm sampling) = Inr ()"
  shows "map method_of (snd (generate solve g cf time_disc sd ic nc algorithm sampling))
         = concat (replicate (nat (MC_SAMPLES g))
             (generate_one_call # map update_call (update_order g)))
           @ storing_order g
       \<and> distinct (storing_order g)
       \<and> generate_one_call \<notin> set (storing_order g)
       \<and> (\<forall>m. update_call m \<notin> set (storing_order g))"
proof -
  let ?mc = "monte_carlo solve g cf time_disc sd ic nc algorithm sampling
      [0..<nat (MC_SAMPLES g)]"
  from assms have none: "fst ?mc = None"
    by (auto simp: generate_def split: prod.splits option.splits)
  then have tr: "snd (generate solve g cf time_disc sd ic nc algorithm sampling)
       = snd ?mc @ store_processed_data g cf"
    by (auto simp: generate_def split: prod.splits option.splits)
  from monte_carlo_methods[OF none] have
    "map method_of (snd ?mc) = concat (replicate (nat (MC_SAMPLES g))
             (generate_one_call # map update_call (update_order g)))"
    by simp
  with tr store_processed_data_methods storing_order_distinct show ?thesis
    by simp
qed

theorem driver_calls_in_order_witness:
  "fst (generate noisy_solver short_run directories two_levels two_cells [1, 2] [1, 1]
     implicitEuler_mixedFEM_linearMulti_withSymGrad_approxOfAverages fixed_sampling) = Inr ()
   \<and> map method_of (snd (generate noisy_solver short_run directories two_levels two_cells
       [1, 2] [1, 1] implicitEuler_mixedFEM_linearMulti_withSymGrad_approxOfAverages
       fixed_sampling))
     = concat (replicate (nat (MC_SAMPLES short_run))
             (generate_one_call # map update_call (update_order short_run)))
           @ storing_order short_run"
proof -
  from driver_calls_in_order[OF small_run_completes] small_run_completes
  show ?thesis by blast
qed

section \<open>The shape of the returned value\<close>

lemma willing_antisym_run:
  "fst (call_algorithm willing_solver
          CrankNicolson_mixedFEM_strato_transportNoise_withAntisym two_steps)
   = Inr (Return3 [(0, [1, 2]), (1/2, [1, 1]), (1, [2, 2])]
                  [(0, [0, 0]), (1/2, [-1, 1]), (1, [-1, 1])]
                  [(0, [0, 0]), (1/2, [1, 3/2]), (1, [3/2, 3/2])])"
  by (simp add: run_defs input_defs upt_rec eval_nat_numeral del: VariationalForm.simps)

lemma returned_shape:
  assumes "fst (call_algorithm solve algorithm a) = Inr r"
  shows "if algorithm = CrankNicolson_mixedFEM_strato_transportNoise_withAntisym
         then \<exists>tv tp tm. r = Return3 tv tp tm else \<exists>tv tp. r = Return2 tv tp"
  using assms
  by (auto simp: call_algorithm_def return_statement_def Let_def
      split: sum.splits prod.splits if_splits)

text \<open>
  C4 fails for \<open>CrankNicolson_mixedFEM_strato_transportNoise_withAntisym\<close>, which
  \<open>get_algorithm_by_name\<close> returns for the name ending in \<open>with anti-symmetrisation\<close>: on
  the two-step grid with a converging solver it returns three dictionaries, the third
  being the velocity midpoints, and \<open>generate_one\<close> with this algorithm raises instead
  of returning the two mappings.
\<close>

theorem antisym_returns_three_dictionaries:
  "get_algorithm_by_name
      ''Crank Nicolson mixed FEM Stratonovich Transport Noise with anti-symmetrisation''
     = Inr CrankNicolson_mixedFEM_strato_transportNoise_withAntisym
   \<and> fst (call_algorithm willing_solver
          CrankNicolson_mixedFEM_strato_transportNoise_withAntisym two_steps)
     = Inr (Return3 [(0, [1, 2]), (1/2, [1, 1]), (1, [2, 2])]
                    [(0, [0, 0]), (1/2, [-1, 1]), (1, [-1, 1])]
                    [(0, [0, 0]), (1/2, [1, 3/2]), (1, [3/2, 3/2])])
   \<and> generate_one willing_solver two_levels two_cells [1, 2] [1, 1] 3 (1/10) 1
        CrankNicolson_mixedFEM_strato_transportNoise_withAntisym (fixed_sampling 0)
     = Inl TypeError"
proof -
  have "get_algorithm_by_name
      ''Crank Nicolson mixed FEM Stratonovich Transport Noise with anti-symmetrisation''
     = Inr CrankNicolson_mixedFEM_strato_transportNoise_withAntisym"
    by (simp add: get_algorithm_by_name_def)
  moreover have "generate_one willing_solver two_levels two_cells [1, 2] [1, 1] 3 (1/10) 1
        CrankNicolson_mixedFEM_strato_transportNoise_withAntisym (fixed_sampling 0)
     = Inl TypeError"
    by (simp add: generate_one_def two_levels_def fixed_sampling_def keys_def dict_get_def
        has_noise_intensity_def)
  ultimately show ?thesis using willing_antisym_run by simp
qed

end
